theory Spec2Isabelle
  imports Complex_Main "HOL-Library.Char_ord" "HOL-Library.List_Lexorder"
    "HOL-Library.AList" "HOL-Library.Multiset"
begin

section \<open>JavaScript values and built-ins used by the three variants\<close>

text \<open>
  The repository holds three variants of one React component:
  \<^item> \<^verbatim>\<open>src/src/App.tsx\<close>: one global entry list, every entry carries a \<^verbatim>\<open>month\<close> field,
    in-place editing through \<^verbatim>\<open>editingId\<close>/\<^verbatim>\<open>editDraft\<close>; its names are kept as they are;
  \<^item> \<^verbatim>\<open>src/spend-tracker/src/App.tsx\<close>: user-defined categories, budgets, one stored entry
    list per month key; a name that the first variant also has carries the suffix \<open>_st\<close>;
  \<^item> \<^verbatim>\<open>src/unnamed/part_000\<close>: a dictionary from month key to expense list, no editing; a
    name that the first variant also has carries the suffix \<open>_p0\<close>.
  The fields of the entry records are prefixed (\<open>e_\<close>, \<open>st_\<close>, \<open>x_\<close>, and \<open>d_\<close> for the edit
  draft), since the form state uses the same names.

  A state variable of \<^verbatim>\<open>useState\<close> is a field of the state record, an event handler is a
  function from state to state, and an effect is run by the handler that changes one of
  its dependencies.  What the platform supplies enters as a parameter: the string to
  number conversion \<open>Number\<close>, the identifier from \<^verbatim>\<open>crypto.randomUUID()\<close>, the answer of
  a \<^verbatim>\<open>confirm\<close> dialog and today's date.  The first and the third variant only ever write
  their entries to \<^verbatim>\<open>localStorage\<close> after the initial load, so their stored copy is not
  part of the state; the second variant reads it back on every month change, so there it
  is.

  A finite JavaScript number is an exact rational here: the rounding of IEEE doubles is
  not modelled.  A string is a list of code units, compared code unit by code unit as
  the operator \<^verbatim>\<open><\<close> of JavaScript does.
\<close>

datatype jsnum = Fin rat | NaN | PosInf | NegInf

fun isFinite :: "jsnum \<Rightarrow> bool" where
  "isFinite (Fin r) = True"
| "isFinite NaN = False"
| "isFinite PosInf = False"
| "isFinite NegInf = False"

text \<open>The comparison \<^verbatim>\<open>n <= 0\<close>: false for NaN.\<close>

fun le_zero :: "jsnum \<Rightarrow> bool" where
  "le_zero (Fin r) = (r \<le> 0)"
| "le_zero NaN = False"
| "le_zero PosInf = False"
| "le_zero NegInf = True"

text \<open>The comparison \<^verbatim>\<open>n >= 0\<close>.\<close>

fun ge_zero :: "jsnum \<Rightarrow> bool" where
  "ge_zero (Fin r) = (r \<ge> 0)"
| "ge_zero NaN = False"
| "ge_zero PosInf = True"
| "ge_zero NegInf = False"

text \<open>The value of a number already known to be finite.\<close>

fun fin_val :: "jsnum \<Rightarrow> rat" where
  "fin_val (Fin r) = r"
| "fin_val NaN = 0"
| "fin_val PosInf = 0"
| "fin_val NegInf = 0"

text \<open>
  \<^verbatim>\<open>String.prototype.trim\<close> strips white space and line terminators from both ends; of
  the code units below 256 these are TAB, LF, VT, FF, CR, SPACE and NBSP.
\<close>

definition is_ws :: "char \<Rightarrow> bool" where
  "is_ws c = (c \<in> set [CHR 0x09, CHR 0x0A, CHR 0x0B, CHR 0x0C, CHR 0x0D, CHR 0x20, CHR 0xA0])"

definition trim :: "string \<Rightarrow> string" where
  "trim s = rev (dropWhile is_ws (rev (dropWhile is_ws s)))"

text \<open>
  \<^verbatim>\<open>Array.prototype.sort\<close> with a comparator is stable: an element moves in front of
  another one only when the comparator puts it there.  For a consistent comparator this
  fixes the result, which the insertion below computes.
\<close>

fun js_insert :: "('a \<Rightarrow> 'a \<Rightarrow> int) \<Rightarrow> 'a \<Rightarrow> 'a list \<Rightarrow> 'a list" where
  "js_insert cmp x [] = [x]"
| "js_insert cmp x (y # ys) = (if cmp x y \<le> 0 then x # y # ys else y # js_insert cmp x ys)"

fun js_sort :: "('a \<Rightarrow> 'a \<Rightarrow> int) \<Rightarrow> 'a list \<Rightarrow> 'a list" where
  "js_sort cmp [] = []"
| "js_sort cmp (x # xs) = js_insert cmp x (js_sort cmp xs)"

text \<open>
  \<^verbatim>\<open>a.localeCompare(b)\<close> on dates: for strings of digits and hyphens of one fixed layout
  the collation order is the code unit order.
\<close>

definition localeCompare :: "string \<Rightarrow> string \<Rightarrow> int" where
  "localeCompare a b = (if a < b then - 1 else if a = b then 0 else 1)"


section \<open>The variant src/src/App.tsx\<close>

datatype Category =
  Fun | Bill | Subscription | Hygiene | Gas | Car | Supplements | Beer | Food | Other

record Entry =
  e_id :: string
  e_month :: string
  e_date :: string
  e_amount :: rat
  e_category :: Category
  e_location :: string
  e_what :: string


definition monthFromDate :: "string \<Rightarrow> string" where
  "monthFromDate dateISO = take 7 dateISO"

text \<open>
  The edit draft is a copy of an entry whose amount the amount input overwrites with
  its text (\<^verbatim>\<open>ev.target.value as unknown as any\<close>), so the field holds a number or a string.
\<close>

datatype draft_amount = NumV rat | TextV string

record Draft =
  d_id :: string
  d_month :: string
  d_date :: string
  d_amount :: draft_amount
  d_category :: Category
  d_location :: string
  d_what :: string

record App =
  allEntries :: "Entry list"
  month :: string
  date :: string
  amount :: string
  category :: Category
  location :: string
  what :: string
  editingId :: "string option"
  editDraft :: "Draft option"

text \<open>\<^verbatim>\<open>setMonth\<close> from the month input, followed by the effect on \<^verbatim>\<open>[month]\<close>.\<close>

definition setMonth :: "string \<Rightarrow> App \<Rightarrow> App" where
  "setMonth v s =
     (if v = month s then s
      else let s1 = s\<lparr>month := v\<rparr>;
               formMonth = monthFromDate (date s1)
           in if formMonth \<noteq> month s1 then s1\<lparr>date := month s1 @ ''-01''\<rparr> else s1)"

definition date_desc :: "Entry \<Rightarrow> Entry \<Rightarrow> int" where
  "date_desc a b = localeCompare (e_date b) (e_date a)"

definition monthEntries :: "App \<Rightarrow> Entry list" where
  "monthEntries s = js_sort date_desc (filter (\<lambda>e. e_month e = month s) (allEntries s))"





definition addExpense :: "(string \<Rightarrow> jsnum) \<Rightarrow> string \<Rightarrow> App \<Rightarrow> App" where
  "addExpense Number uuid s =
     (let amt = Number (amount s) in
      if \<not> isFinite amt \<or> le_zero amt then s
      else if trim (what s) = [] then s
      else
        let entry = \<lparr>e_id = uuid, e_month = month s, e_date = date s, e_amount = fin_val amt,
                     e_category = category s, e_location = trim (location s),
                     e_what = trim (what s)\<rparr>
        in s\<lparr>allEntries := entry # allEntries s, amount := [], category := Fun,
              location := [], what := []\<rparr>)"

definition deleteEntry :: "string \<Rightarrow> App \<Rightarrow> App" where
  "deleteEntry i s =
     (let s1 = s\<lparr>allEntries := filter (\<lambda>e. e_id e \<noteq> i) (allEntries s)\<rparr>
      in if editingId s = Some i then s1\<lparr>editingId := None, editDraft := None\<rparr> else s1)"

definition startEdit :: "Entry \<Rightarrow> App \<Rightarrow> App" where
  "startEdit e s =
     s\<lparr>editingId := Some (e_id e),
       editDraft := Some \<lparr>d_id = e_id e, d_month = e_month e, d_date = e_date e,
                          d_amount = NumV (e_amount e), d_category = e_category e,
                          d_location = e_location e, d_what = e_what e\<rparr>\<rparr>"

definition cancelEdit :: "App \<Rightarrow> App" where
  "cancelEdit s = s\<lparr>editingId := None, editDraft := None\<rparr>"




definition clearMonth :: "App \<Rightarrow> App" where
  "clearMonth s =
     s\<lparr>allEntries := filter (\<lambda>e. e_month e \<noteq> month s) (allEntries s),
       editingId := None, editDraft := None\<rparr>"

definition clearAll :: "App \<Rightarrow> App" where
  "clearAll s = s\<lparr>allEntries := [], editingId := None, editDraft := None\<rparr>"


section \<open>The variant src/unnamed/part_000\<close>

record Expense =
  x_id :: string
  x_date :: string
  x_amount :: rat
  x_location :: string
  x_what :: string
  x_category :: Category

text \<open>\<^verbatim>\<open>DataByMonth\<close>: a dictionary from month key to the expenses of that month.\<close>

record App_p0 =
  month_p0 :: string
  data :: "string \<rightharpoonup> Expense list"
  date_p0 :: string
  amount_p0 :: string
  location_p0 :: string
  what_p0 :: string
  category_p0 :: Category

definition monthKeyFromDate :: "string \<Rightarrow> string" where
  "monthKeyFromDate dateISO = take 7 dateISO"

definition expensesThisMonth :: "App_p0 \<Rightarrow> Expense list" where
  "expensesThisMonth s = (case data s (month_p0 s) of None \<Rightarrow> [] | Some xs \<Rightarrow> xs)"

definition setMonth_p0 :: "string \<Rightarrow> App_p0 \<Rightarrow> App_p0" where
  "setMonth_p0 v s =
     (if v = month_p0 s then s
      else let s1 = s\<lparr>month_p0 := v\<rparr>
           in if month_p0 s1 \<noteq> [] \<and> take 7 (date_p0 s1) \<noteq> month_p0 s1
              then s1\<lparr>date_p0 := month_p0 s1 @ ''-01''\<rparr> else s1)"



definition newest_first :: "Expense \<Rightarrow> Expense \<Rightarrow> int" where
  "newest_first a b =
     (if x_date a \<noteq> x_date b then (if x_date a < x_date b then 1 else - 1)
      else (if x_id a < x_id b then 1 else - 1))"

definition sortedExpenses :: "App_p0 \<Rightarrow> Expense list" where
  "sortedExpenses s = js_sort newest_first (expensesThisMonth s)"

definition addExpense_p0 :: "(string \<Rightarrow> jsnum) \<Rightarrow> string \<Rightarrow> App_p0 \<Rightarrow> App_p0" where
  "addExpense_p0 Number uuid s =
     (let trimmedLocation = trim (location_p0 s);
          trimmedWhat = trim (what_p0 s);
          num = Number (amount_p0 s)
      in if date_p0 s = [] then s
         else if \<not> isFinite num \<or> le_zero num then s
         else if trimmedWhat = [] then s
         else
           let expense = \<lparr>x_id = uuid, x_date = date_p0 s, x_amount = fin_val num,
                          x_location = trimmedLocation, x_what = trimmedWhat,
                          x_category = category_p0 s\<rparr>;
               key = monthKeyFromDate (date_p0 s);
               arr = (case data s key of None \<Rightarrow> [] | Some xs \<Rightarrow> xs)
           in s\<lparr>data := (data s)(key \<mapsto> arr @ [expense]), amount_p0 := [],
                 location_p0 := [], what_p0 := [], category_p0 := Fun\<rparr>)"

definition removeExpense :: "string \<Rightarrow> App_p0 \<Rightarrow> App_p0" where
  "removeExpense i s =
     (let kept = filter (\<lambda>e. x_id e \<noteq> i) (expensesThisMonth s)
      in if kept = [] then s\<lparr>data := (data s)(month_p0 s := None)\<rparr>
         else s\<lparr>data := (data s)(month_p0 s \<mapsto> kept)\<rparr>)"

definition clearMonth_p0 :: "bool \<Rightarrow> App_p0 \<Rightarrow> App_p0" where
  "clearMonth_p0 confirmed s =
     (if \<not> confirmed then s else s\<lparr>data := (data s)(month_p0 s := None)\<rparr>)"

definition clearAll_p0 :: "bool \<Rightarrow> App_p0 \<Rightarrow> App_p0" where
  "clearAll_p0 confirmed s = (if \<not> confirmed then s else s\<lparr>data := Map.empty\<rparr>)"


section \<open>The variant src/spend-tracker/src/App.tsx\<close>

text \<open>
  A plain object with string keys is the list of its own properties in creation order:
  assignment replaces the value of a key in place or appends a new key
  (\<open>AList.update\<close>), \<^verbatim>\<open>delete\<close> is \<open>AList.delete\<close>.  \<^verbatim>\<open>Object.entries\<close> lists the keys that
  are array indices first, in ascending numeric order, then the other keys in creation
  order.  Properties inherited from \<^verbatim>\<open>Object.prototype\<close> are outside the model.
\<close>

type_synonym 'v jsobj = "(string \<times> 'v) list"

definition is_digit :: "char \<Rightarrow> bool" where
  "is_digit c = (CHR ''0'' \<le> c \<and> c \<le> CHR ''9'')"

definition decimal_value :: "string \<Rightarrow> nat" where
  "decimal_value s = foldl (\<lambda>n c. 10 * n + (of_char c - 48)) 0 s"

definition is_array_index :: "string \<Rightarrow> bool" where
  "is_array_index s =
     (s \<noteq> [] \<and> list_all is_digit s \<and> (s = ''0'' \<or> hd s \<noteq> CHR ''0'')
      \<and> decimal_value s < 2 ^ 32 - 1)"

definition Object_entries :: "'v jsobj \<Rightarrow> (string \<times> 'v) list" where
  "Object_entries obj =
     sort_key (\<lambda>p. decimal_value (fst p)) (filter (\<lambda>p. is_array_index (fst p)) obj)
     @ filter (\<lambda>p. \<not> is_array_index (fst p)) obj"


record Entry_st =
  st_id :: string
  st_date :: string
  st_amount :: rat
  st_category :: string
  st_what :: string

definition DEFAULT_CATEGORIES :: "string list" where
  "DEFAULT_CATEGORIES =
     [''Fun'', ''Bills'', ''Subscriptions'', ''Hygiene'', ''Gas'', ''Car'', ''Supplements'',
      ''Food'', ''Other'']"


definition monthKeyFromMonthInput :: "string \<Rightarrow> string" where
  "monthKeyFromMonthInput monthValue = monthValue"

text \<open>
  The component state and the three kinds of \<^verbatim>\<open>localStorage\<close> records it reads and writes.
  A stored record is what \<^verbatim>\<open>safeJsonParse\<close> returns for it: \<open>None\<close> stands for a missing
  key or text that does not parse (the fallback is taken), an element \<open>None\<close> of a stored
  entry list for an element that fails the shape test of the load effect, and a budget
  value \<open>None\<close> for a value that is not a finite number.
\<close>

record App_st =
  monthValue :: string
  categories :: "string list"
  budgets :: "rat jsobj"
  entries :: "Entry_st list"
  isEditingBudgets :: bool
  isManagingCategories :: bool
  newCategory :: string
  formDate :: string
  formAmount :: string
  formCategory :: string
  formWhat :: string
  editingId_st :: "string option"
  ls_categories :: "string list option"
  ls_entries :: "string \<rightharpoonup> Entry_st option list"
  ls_budgets :: "string \<rightharpoonup> (rat option) jsobj"

definition monthKey :: "App_st \<Rightarrow> string" where
  "monthKey s = monthKeyFromMonthInput (monthValue s)"

text \<open>The two persist effects, on \<^verbatim>\<open>[entries, monthKey]\<close> and on \<^verbatim>\<open>[budgets, monthKey]\<close>.\<close>

definition persist_entries :: "App_st \<Rightarrow> App_st" where
  "persist_entries s = s\<lparr>ls_entries := (ls_entries s)(monthKey s \<mapsto> map Some (entries s))\<rparr>"

definition persist_budgets :: "App_st \<Rightarrow> App_st" where
  "persist_budgets s =
     s\<lparr>ls_budgets := (ls_budgets s)(monthKey s \<mapsto> map (\<lambda>p. (fst p, Some (snd p))) (budgets s))\<rparr>"

text \<open>The effect on \<^verbatim>\<open>[categories]\<close>.\<close>

definition categories_effect :: "App_st \<Rightarrow> App_st" where
  "categories_effect s =
     (let s1 = s\<lparr>ls_categories := Some (categories s)\<rparr>
      in if formCategory s1 \<notin> set (categories s1)
         then s1\<lparr>formCategory := (case categories s1 of [] \<Rightarrow> ''Other'' | c # cs \<Rightarrow> c)\<rparr>
         else s1)"

fun well_shaped :: "Entry_st option list \<Rightarrow> Entry_st list" where
  "well_shaped [] = []"
| "well_shaped (None # es) = well_shaped es"
| "well_shaped (Some e # es) = e # well_shaped es"

definition clean_budgets :: "(rat option) jsobj \<Rightarrow> rat jsobj" where
  "clean_budgets loadedBudgets =
     fold (\<lambda>p cleaned. AList.update (fst p) (case snd p of Some v \<Rightarrow> v | None \<Rightarrow> 0) cleaned)
       (Object_entries loadedBudgets) []"

text \<open>
  The effect on \<^verbatim>\<open>[monthKey]\<close>: it loads the entries and budgets stored for the selected
  month and resets the edit state.  The persist effects of the same render still write
  the previous lists under the new key; the render that follows the load writes the
  loaded lists over them, which is the state returned here.
\<close>

definition load_month :: "string \<Rightarrow> App_st \<Rightarrow> App_st" where
  "load_month today s =
     (let loadedEntries =
            well_shaped (case ls_entries s (monthKey s) of None \<Rightarrow> [] | Some es \<Rightarrow> es);
          loadedBudgets = (case ls_budgets s (monthKey s) of None \<Rightarrow> [] | Some b \<Rightarrow> b);
          cleaned = clean_budgets loadedBudgets
      in persist_budgets (persist_entries
           (s\<lparr>entries := loadedEntries, budgets := cleaned, editingId_st := None,
              formAmount := [], formWhat := [], formDate := today\<rparr>)))"

definition setMonthValue :: "string \<Rightarrow> string \<Rightarrow> App_st \<Rightarrow> App_st" where
  "setMonthValue today v s = (if v = monthValue s then s else load_month today (s\<lparr>monthValue := v\<rparr>))"







definition clearMonth_st :: "bool \<Rightarrow> App_st \<Rightarrow> App_st" where
  "clearMonth_st confirmed s =
     (if \<not> confirmed then s
      else persist_budgets (persist_entries
             (s\<lparr>entries := [], budgets := [],
                ls_entries := (ls_entries s)(monthKey s := None),
                ls_budgets := (ls_budgets s)(monthKey s := None)\<rparr>)))"

text \<open>
  The comparator of the two sorts by date.  It never returns 0, so for two entries of one
  date the standard leaves their order to the engine; the insertion of \<open>js_sort\<close> gives
  one of the possible orders, and nothing below is stated about it.
\<close>

definition newest_first_st :: "Entry_st \<Rightarrow> Entry_st \<Rightarrow> int" where
  "newest_first_st a b = (if st_date a < st_date b then 1 else - 1)"

text \<open>\<^verbatim>\<open>if (editingId)\<close>: null and the empty string are falsy.\<close>

fun truthy :: "string option \<Rightarrow> bool" where
  "truthy None = False"
| "truthy (Some i) = (i \<noteq> [])"

definition addOrUpdateExpense :: "(string \<Rightarrow> jsnum) \<Rightarrow> string \<Rightarrow> bool \<Rightarrow> App_st \<Rightarrow> App_st" where
  "addOrUpdateExpense Number uuid confirmed s =
     (let amount = Number (formAmount s) in
      if \<not> isFinite amount \<or> le_zero amount then s
      else if trim (formWhat s) = [] then s
      else if trim (formCategory s) = [] then s
      else if formDate s = [] then s
      else if formCategory s \<notin> set (categories s) \<and> \<not> confirmed then s
      else
        let s1 = (if formCategory s \<notin> set (categories s)
                  then categories_effect (s\<lparr>categories := sort (categories s @ [formCategory s])\<rparr>)
                  else s);
            s2 = (if truthy (editingId_st s)
                  then s1\<lparr>entries :=
                            map (\<lambda>e. if Some (st_id e) = editingId_st s
                                      then e\<lparr>st_date := formDate s, st_amount := fin_val amount,
                                             st_category := formCategory s,
                                             st_what := trim (formWhat s)\<rparr>
                                      else e) (entries s),
                          editingId_st := None\<rparr>
                  else s1\<lparr>entries :=
                            js_sort newest_first_st
                              (\<lparr>st_id = uuid, st_date = formDate s, st_amount = fin_val amount,
                                st_category = formCategory s, st_what = trim (formWhat s)\<rparr>
                               # entries s)\<rparr>)
        in persist_entries (s2\<lparr>formAmount := [], formWhat := []\<rparr>))"

definition startEdit_st :: "Entry_st \<Rightarrow> (rat \<Rightarrow> string) \<Rightarrow> App_st \<Rightarrow> App_st" where
  "startEdit_st e String s =
     s\<lparr>editingId_st := Some (st_id e), formDate := st_date e, formAmount := String (st_amount e),
       formCategory := st_category e, formWhat := st_what e\<rparr>"

definition cancelEdit_st :: "string \<Rightarrow> App_st \<Rightarrow> App_st" where
  "cancelEdit_st today s = s\<lparr>editingId_st := None, formAmount := [], formWhat := [], formDate := today\<rparr>"

definition deleteEntry_st :: "bool \<Rightarrow> string \<Rightarrow> App_st \<Rightarrow> App_st" where
  "deleteEntry_st confirmed i s =
     (if \<not> confirmed then s
      else persist_entries (s\<lparr>entries := filter (\<lambda>e. st_id e \<noteq> i) (entries s)\<rparr>))"


definition setBudget :: "(string \<Rightarrow> jsnum) \<Rightarrow> string \<Rightarrow> string \<Rightarrow> App_st \<Rightarrow> App_st" where
  "setBudget Number cat v s =
     (let n = Number v
      in persist_budgets
           (s\<lparr>budgets := AList.update cat (if isFinite n \<and> ge_zero n then fin_val n else 0)
                           (budgets s)\<rparr>))"




text \<open>The rows of the entries table: \<^verbatim>\<open>entries.slice().sort(...)\<close> in the JSX.\<close>

definition entries_table :: "App_st \<Rightarrow> Entry_st list" where
  "entries_table s = js_sort newest_first_st (entries s)"


section \<open>Example inputs\<close>

text \<open>
  The value of \<^verbatim>\<open>Number\<close> on the strings of the examples; every theorem below holds for
  any conversion function, this one only instantiates them.
\<close>

definition Number_ex :: "string \<Rightarrow> jsnum" where
  "Number_ex t =
     (if t = ''12.5'' then Fin (25 / 2) else if t = ''30'' then Fin 30
      else if t = ''0'' then Fin 0 else if t = ''-5'' then Fin (- 5)
      else if t = ''Infinity'' then PosInf else NaN)"

definition lunch :: Entry where
  "lunch = \<lparr>e_id = ''e1'', e_month = ''2024-01'', e_date = ''2024-01-10'', e_amount = 30,
            e_category = Food, e_location = ''Cafe'', e_what = ''lunch''\<rparr>"

definition form_ex :: "string \<Rightarrow> string \<Rightarrow> App" where
  "form_ex a w =
     \<lparr>allEntries = [lunch], month = ''2024-01'', date = ''2024-01-15'', amount = a,
      category = Food, location = ''Cafe'', what = w, editingId = None, editDraft = None\<rparr>"

definition form_ex_p0 :: "string \<Rightarrow> string \<Rightarrow> App_p0" where
  "form_ex_p0 a w =
     \<lparr>month_p0 = ''2024-01'', data = Map.empty, date_p0 = ''2024-01-15'', amount_p0 = a,
      location_p0 = ''Cafe'', what_p0 = w, category_p0 = Food\<rparr>"

definition lunch_st :: Entry_st where
  "lunch_st = \<lparr>st_id = ''e1'', st_date = ''2024-01-10'', st_amount = 30,
               st_category = ''Food'', st_what = ''lunch''\<rparr>"

definition form_ex_st :: "string \<Rightarrow> string \<Rightarrow> string option \<Rightarrow> App_st" where
  "form_ex_st a w ed =
     \<lparr>monthValue = ''2024-01'', categories = DEFAULT_CATEGORIES, budgets = [(''Gas'', 40)],
      entries = [lunch_st], isEditingBudgets = False, isManagingCategories = False,
      newCategory = [], formDate = ''2024-01-15'', formAmount = a, formCategory = ''Food'',
      formWhat = w, editingId_st = ed, ls_categories = Some DEFAULT_CATEGORIES,
      ls_entries = [''2024-01'' \<mapsto> [Some lunch_st]],
      ls_budgets = [''2024-01'' \<mapsto> [(''Gas'', Some 40)], ''2024-02'' \<mapsto> [(''Gas'', Some 50)]]\<rparr>"


definition rent :: Entry where
  "rent = \<lparr>e_id = ''e2'', e_month = ''2024-02'', e_date = ''2024-02-01'', e_amount = 900,
           e_category = Bill, e_location = [], e_what = ''rent''\<rparr>"

definition two_months :: App where
  "two_months =
     \<lparr>allEntries = [lunch, rent], month = ''2024-01'', date = ''2024-01-15'', amount = [],
      category = Fun, location = [], what = [], editingId = None, editDraft = None\<rparr>"

definition rent_p0 :: Expense where
  "rent_p0 = \<lparr>x_id = ''e2'', x_date = ''2024-02-01'', x_amount = 900, x_location = [],
              x_what = ''rent'', x_category = Bill\<rparr>"

definition lunch_p0 :: Expense where
  "lunch_p0 = \<lparr>x_id = ''e1'', x_date = ''2024-01-10'', x_amount = 30, x_location = ''Cafe'',
               x_what = ''lunch'', x_category = Food\<rparr>"

definition two_months_p0 :: App_p0 where
  "two_months_p0 =
     \<lparr>month_p0 = ''2024-01'', data = [''2024-01'' \<mapsto> [lunch_p0], ''2024-02'' \<mapsto> [rent_p0]],
      date_p0 = ''2024-01-15'', amount_p0 = [], location_p0 = [], what_p0 = [],
      category_p0 = Fun\<rparr>"

definition editing_ex :: App where
  "editing_ex = startEdit lunch two_months"


definition fuel :: Entry where
  "fuel = \<lparr>e_id = ''e3'', e_month = ''2024-01'', e_date = ''2024-01-12'', e_amount = 30,
           e_category = Gas, e_location = [], e_what = ''fuel''\<rparr>"




definition snack :: Entry where
  "snack = \<lparr>e_id = ''e0'', e_month = ''2024-01'', e_date = ''2024-01-10'', e_amount = 4,
            e_category = Food, e_location = [], e_what = ''snack''\<rparr>"

definition same_day :: App where
  "same_day =
     \<lparr>allEntries = [snack, lunch, fuel], month = ''2024-01'', date = ''2024-01-15'', amount = [],
      category = Fun, location = [], what = [], editingId = None, editDraft = None\<rparr>"

definition snack_p0 :: Expense where
  "snack_p0 = \<lparr>x_id = ''e0'', x_date = ''2024-01-10'', x_amount = 4, x_location = [],
               x_what = ''snack'', x_category = Food\<rparr>"

definition fuel_p0 :: Expense where
  "fuel_p0 = \<lparr>x_id = ''e3'', x_date = ''2024-01-12'', x_amount = 30, x_location = [],
              x_what = ''fuel'', x_category = Gas\<rparr>"

definition same_day_p0 :: App_p0 where
  "same_day_p0 =
     \<lparr>month_p0 = ''2024-01'', data = [''2024-01'' \<mapsto> [snack_p0, lunch_p0, fuel_p0]],
      date_p0 = ''2024-01-15'', amount_p0 = [], location_p0 = [], what_p0 = [],
      category_p0 = Fun\<rparr>"






section \<open>Budget progress\<close>



section \<open>Rejected additions\<close>

lemma addExpense_rejected:
  "\<not> (\<exists>r. Number (amount s) = Fin r \<and> 0 < r) \<or> trim (what s) = []
   \<Longrightarrow> addExpense Number uuid s = s"
  by (cases "Number (amount s)") (auto simp: addExpense_def Let_def)

lemma addExpense_p0_rejected:
  "\<not> (\<exists>r. Number (amount_p0 s) = Fin r \<and> 0 < r) \<or> trim (what_p0 s) = []
   \<Longrightarrow> addExpense_p0 Number uuid s = s"
  by (cases "Number (amount_p0 s)") (auto simp: addExpense_p0_def Let_def)

lemma addOrUpdateExpense_rejected:
  "\<not> (\<exists>r. Number (formAmount s) = Fin r \<and> 0 < r) \<or> trim (formWhat s) = []
   \<Longrightarrow> addOrUpdateExpense Number uuid confirmed s = s"
  by (cases "Number (formAmount s)") (auto simp: addOrUpdateExpense_def Let_def)

text \<open>
  Claim C1.  When the amount text does not convert to a finite number greater than 0, or
  the description is empty after trimming, the add handler of each variant
  (\<open>addExpense\<close>, \<open>addExpense_p0\<close>, \<open>addOrUpdateExpense\<close>) returns the state it was given:
  no entry is inserted and nothing else changes, and a second rejected call leaves the
  same state again.
\<close>

theorem C1_rejected_add_changes_nothing:
  "(\<not> (\<exists>r. Number (amount a) = Fin r \<and> 0 < r) \<or> trim (what a) = [] \<longrightarrow>
      addExpense Number uuid a = a
      \<and> addExpense Number uuid' (addExpense Number uuid a) = a)
   \<and> (\<not> (\<exists>r. Number (amount_p0 b) = Fin r \<and> 0 < r) \<or> trim (what_p0 b) = [] \<longrightarrow>
      addExpense_p0 Number uuid b = b
      \<and> addExpense_p0 Number uuid' (addExpense_p0 Number uuid b) = b)
   \<and> (\<not> (\<exists>r. Number (formAmount c) = Fin r \<and> 0 < r) \<or> trim (formWhat c) = [] \<longrightarrow>
      addOrUpdateExpense Number uuid confirmed c = c
      \<and> addOrUpdateExpense Number uuid' confirmed' (addOrUpdateExpense Number uuid confirmed c) = c)"
  by (simp add: addExpense_rejected addExpense_p0_rejected addOrUpdateExpense_rejected)

lemma Number_ex_simps:
  "Number_ex ''0'' = Fin 0" "Number_ex ''-5'' = Fin (- 5)" "Number_ex ''abc'' = NaN"
  "Number_ex ''Infinity'' = PosInf" "Number_ex ''12.5'' = Fin (25 / 2)" "Number_ex ''30'' = Fin 30"
  by (simp_all add: Number_ex_def)

lemma trim_blank: "trim ''   '' = []" "trim ''lunch'' = ''lunch''"
  by (simp_all add: trim_def is_ws_def)

lemma form_ex_sel:
  "amount (form_ex a w) = a" "what (form_ex a w) = w"
  "amount_p0 (form_ex_p0 a w) = a" "what_p0 (form_ex_p0 a w) = w"
  "formAmount (form_ex_st a w ed) = a" "formWhat (form_ex_st a w ed) = w"
  by (simp_all add: form_ex_def form_ex_p0_def form_ex_st_def)

theorem C1_rejected_add_changes_nothing_witness:
  "addExpense Number_ex ''u1'' (form_ex ''0'' ''tea'') = form_ex ''0'' ''tea''
   \<and> addExpense Number_ex ''u1'' (form_ex ''-5'' ''tea'') = form_ex ''-5'' ''tea''
   \<and> addExpense Number_ex ''u1'' (form_ex ''abc'' ''tea'') = form_ex ''abc'' ''tea''
   \<and> addExpense Number_ex ''u1'' (form_ex ''Infinity'' ''tea'') = form_ex ''Infinity'' ''tea''
   \<and> addExpense Number_ex ''u1'' (form_ex ''12.5'' ''   '') = form_ex ''12.5'' ''   ''
   \<and> addExpense Number_ex ''u2'' (addExpense Number_ex ''u1'' (form_ex ''-5'' ''tea'')) = form_ex ''-5'' ''tea''
   \<and> addExpense_p0 Number_ex ''u1'' (form_ex_p0 ''abc'' ''tea'') = form_ex_p0 ''abc'' ''tea''
   \<and> addExpense_p0 Number_ex ''u1'' (form_ex_p0 ''12.5'' ''   '') = form_ex_p0 ''12.5'' ''   ''
   \<and> addOrUpdateExpense Number_ex ''u1'' True (form_ex_st ''0'' ''tea'' None) = form_ex_st ''0'' ''tea'' None
   \<and> addOrUpdateExpense Number_ex ''u1'' True (form_ex_st ''12.5'' ''   '' None) = form_ex_st ''12.5'' ''   '' None"
proof -
  note inst = C1_rejected_add_changes_nothing [where Number = Number_ex and uuid = "''u1''"
      and uuid' = "''u2''" and confirmed = True and confirmed' = True]
  note src = inst [THEN conjunct1, rule_format]
  note p0 = inst [THEN conjunct2, THEN conjunct1, rule_format]
  note st = inst [THEN conjunct2, THEN conjunct2, rule_format]
  have "addExpense Number_ex ''u1'' (form_ex ''0'' ''tea'') = form_ex ''0'' ''tea''"
    by (rule src [THEN conjunct1]) (simp add: form_ex_sel Number_ex_simps)
  moreover have "addExpense Number_ex ''u1'' (form_ex ''-5'' ''tea'') = form_ex ''-5'' ''tea''
      \<and> addExpense Number_ex ''u2'' (addExpense Number_ex ''u1'' (form_ex ''-5'' ''tea'')) = form_ex ''-5'' ''tea''"
    by (rule src) (simp add: form_ex_sel Number_ex_simps)
  moreover have "addExpense Number_ex ''u1'' (form_ex ''abc'' ''tea'') = form_ex ''abc'' ''tea''"
    by (rule src [THEN conjunct1]) (simp add: form_ex_sel Number_ex_simps)
  moreover have "addExpense Number_ex ''u1'' (form_ex ''Infinity'' ''tea'') = form_ex ''Infinity'' ''tea''"
    by (rule src [THEN conjunct1]) (simp add: form_ex_sel Number_ex_simps)
  moreover have "addExpense Number_ex ''u1'' (form_ex ''12.5'' ''   '') = form_ex ''12.5'' ''   ''"
    by (rule src [THEN conjunct1]) (simp add: form_ex_sel trim_blank)
  moreover have "addExpense_p0 Number_ex ''u1'' (form_ex_p0 ''abc'' ''tea'') = form_ex_p0 ''abc'' ''tea''"
    by (rule p0 [THEN conjunct1]) (simp add: form_ex_sel Number_ex_simps)
  moreover have "addExpense_p0 Number_ex ''u1'' (form_ex_p0 ''12.5'' ''   '') = form_ex_p0 ''12.5'' ''   ''"
    by (rule p0 [THEN conjunct1]) (simp add: form_ex_sel trim_blank)
  moreover have "addOrUpdateExpense Number_ex ''u1'' True (form_ex_st ''0'' ''tea'' None) = form_ex_st ''0'' ''tea'' None"
    by (rule st [THEN conjunct1]) (simp add: form_ex_sel Number_ex_simps)
  moreover have "addOrUpdateExpense Number_ex ''u1'' True (form_ex_st ''12.5'' ''   '' None) = form_ex_st ''12.5'' ''   '' None"
    by (rule st [THEN conjunct1]) (simp add: form_ex_sel trim_blank)
  ultimately show ?thesis by blast
qed

section \<open>Clearing a month\<close>

lemma set_js_insert: "set (js_insert cmp x xs) = insert x (set xs)"
  by (induction xs) auto


lemma clearMonth_other_view:
  "m \<noteq> month a \<Longrightarrow> monthEntries ((clearMonth a)\<lparr>month := m\<rparr>) = monthEntries (a\<lparr>month := m\<rparr>)"
proof -
  assume m: "m \<noteq> month a"
  have "filter (\<lambda>e. e_month e = m) (filter (\<lambda>e. e_month e \<noteq> month a) (allEntries a))
        = filter (\<lambda>e. e_month e = m) (allEntries a)"
    using m by (induction "allEntries a") (auto intro: filter_cong)
  then show ?thesis by (simp add: monthEntries_def clearMonth_def)
qed

lemma clearMonth_st_frame:
  "m \<noteq> monthKey c \<Longrightarrow>
     ls_entries (clearMonth_st confirmed c) m = ls_entries c m
     \<and> ls_budgets (clearMonth_st confirmed c) m = ls_budgets c m"
  by (simp add: clearMonth_st_def persist_entries_def persist_budgets_def monthKey_def)

lemma clearMonth_st_registry:
  "categories (clearMonth_st confirmed c) = categories c
   \<and> ls_categories (clearMonth_st confirmed c) = ls_categories c"
  by (simp add: clearMonth_st_def persist_entries_def persist_budgets_def)

text \<open>
  Claim C10.  Clearing the selected month leaves every other month alone: in
  \<^verbatim>\<open>src/src/App.tsx\<close> every entry whose month field differs from the selected month stays
  in the list, the entries of other months are the same in the same order, and the
  view of any other month is the same; in \<^verbatim>\<open>part_000\<close> the list stored under any other
  month key is the same; in \<^verbatim>\<open>spend-tracker\<close> the entries and budgets stored for any
  other month key are the same and the category list, in memory and stored, is
  unchanged.  (In the first two variants the categories are the constant
  \<open>CATEGORIES\<close>.)
\<close>

theorem C10_clearMonth_frame:
  "(\<forall>e \<in> set (allEntries a). e_month e \<noteq> month a \<longrightarrow> e \<in> set (allEntries (clearMonth a)))
   \<and> filter (\<lambda>e. e_month e \<noteq> month a) (allEntries (clearMonth a))
       = filter (\<lambda>e. e_month e \<noteq> month a) (allEntries a)
   \<and> (\<forall>m. m \<noteq> month a \<longrightarrow>
         monthEntries ((clearMonth a)\<lparr>month := m\<rparr>) = monthEntries (a\<lparr>month := m\<rparr>))
   \<and> (\<forall>m. m \<noteq> month_p0 b \<longrightarrow> data (clearMonth_p0 confirmed b) m = data b m)
   \<and> (\<forall>m. m \<noteq> monthKey c \<longrightarrow>
         ls_entries (clearMonth_st confirmed c) m = ls_entries c m
         \<and> ls_budgets (clearMonth_st confirmed c) m = ls_budgets c m)
   \<and> categories (clearMonth_st confirmed c) = categories c
   \<and> ls_categories (clearMonth_st confirmed c) = ls_categories c"
proof -
  have "\<forall>e \<in> set (allEntries a). e_month e \<noteq> month a \<longrightarrow> e \<in> set (allEntries (clearMonth a))"
    by (simp add: clearMonth_def)
  moreover have "filter (\<lambda>e. e_month e \<noteq> month a) (allEntries (clearMonth a))
       = filter (\<lambda>e. e_month e \<noteq> month a) (allEntries a)"
    by (simp add: clearMonth_def)
  moreover have "\<forall>m. m \<noteq> month_p0 b \<longrightarrow> data (clearMonth_p0 confirmed b) m = data b m"
    by (simp add: clearMonth_p0_def)
  ultimately show ?thesis
    using clearMonth_other_view [of _ a] clearMonth_st_frame [of _ c confirmed]
      clearMonth_st_registry [of confirmed c]
    by blast
qed

theorem C10_clearMonth_frame_witness:
  "rent \<in> set (allEntries (clearMonth two_months))
   \<and> monthEntries ((clearMonth two_months)\<lparr>month := ''2024-02''\<rparr>) = [rent]
   \<and> data (clearMonth_p0 True two_months_p0) ''2024-02'' = Some [rent_p0]
   \<and> ls_budgets (clearMonth_st True (form_ex_st [] [] None)) ''2024-02'' = Some [(''Gas'', Some 50)]
   \<and> ls_entries (clearMonth_st True (form_ex_st [] [] None)) ''2024-02'' = None"
proof -
  note inst = C10_clearMonth_frame [where a = two_months and b = two_months_p0
      and c = "form_ex_st [] [] None" and confirmed = True]
  have "rent \<in> set (allEntries (clearMonth two_months))"
    using inst [THEN conjunct1, rule_format, of rent]
    by (simp add: two_months_def rent_def)
  moreover have "monthEntries ((clearMonth two_months)\<lparr>month := ''2024-02''\<rparr>) = [rent]"
    using inst [THEN conjunct2, THEN conjunct2, THEN conjunct1, rule_format, of "''2024-02''"]
    by (simp add: two_months_def monthEntries_def lunch_def rent_def)
  moreover have "data (clearMonth_p0 True two_months_p0) ''2024-02'' = Some [rent_p0]"
    using inst [THEN conjunct2, THEN conjunct2, THEN conjunct2, THEN conjunct1, rule_format, of "''2024-02''"]
    by (simp add: two_months_p0_def)
  moreover have "ls_budgets (clearMonth_st True (form_ex_st [] [] None)) ''2024-02'' = Some [(''Gas'', Some 50)]
      \<and> ls_entries (clearMonth_st True (form_ex_st [] [] None)) ''2024-02'' = None"
    using inst [THEN conjunct2, THEN conjunct2, THEN conjunct2, THEN conjunct2, THEN conjunct1, rule_format, of "''2024-02''"]
    by (simp add: form_ex_st_def monthKey_def monthKeyFromMonthInput_def)
  ultimately show ?thesis by blast
qed


section \<open>The edit state under deletion and month selection\<close>

lemma deleteEntry_leaves_editing:
  "editingId (deleteEntry i s) \<noteq> Some i
   \<and> (editingId s = Some i \<longrightarrow> editingId (deleteEntry i s) = None \<and> editDraft (deleteEntry i s) = None)
   \<and> (editingId s \<noteq> Some i \<longrightarrow> editingId (deleteEntry i s) = editingId s \<and> editDraft (deleteEntry i s) = editDraft s)"
  by (simp add: deleteEntry_def Let_def)

text \<open>
  Claim C6.  In \<^verbatim>\<open>src/src/App.tsx\<close> deleting the entry that is being edited ends the edit
  (\<open>deleteEntry_leaves_editing\<close>).  In \<^verbatim>\<open>spend-tracker\<close> \<open>deleteEntry\<close> never touches
  \<open>editingId\<close>: whatever entry is deleted, the edit state after the call is the edit
  state before it, so deleting the entry under edit leaves \<open>editingId\<close> pointing at an
  entry that is gone.
\<close>

theorem C6_delete_keeps_editing_st:
  "editingId_st (deleteEntry_st confirmed i s) = editingId_st s
   \<and> (confirmed \<longrightarrow> entries (deleteEntry_st confirmed i s) = filter (\<lambda>e. st_id e \<noteq> i) (entries s))"
  by (simp add: deleteEntry_st_def persist_entries_def)

theorem C6_delete_keeps_editing_st_witness:
  "editingId_st (form_ex_st ''30'' ''lunch'' (Some ''e1'')) = Some ''e1''
   \<and> entries (deleteEntry_st True ''e1'' (form_ex_st ''30'' ''lunch'' (Some ''e1''))) = []
   \<and> editingId_st (deleteEntry_st True ''e1'' (form_ex_st ''30'' ''lunch'' (Some ''e1''))) = Some ''e1''"
  using C6_delete_keeps_editing_st [where confirmed = True and i = "''e1''"
      and s = "form_ex_st ''30'' ''lunch'' (Some ''e1'')"]
  by (simp add: form_ex_st_def lunch_st_def)

lemma setMonth_keeps_editing:
  "editingId (setMonth v s) = editingId s \<and> editDraft (setMonth v s) = editDraft s
   \<and> allEntries (setMonth v s) = allEntries s"
  by (simp add: setMonth_def Let_def)

lemma setMonthValue_resets_editing:
  "v \<noteq> monthValue s \<Longrightarrow>
     editingId_st (setMonthValue today v s) = None
     \<and> formAmount (setMonthValue today v s) = []
     \<and> formWhat (setMonthValue today v s) = []
     \<and> formDate (setMonthValue today v s) = today
     \<and> formCategory (setMonthValue today v s) = formCategory s"
  by (simp add: setMonthValue_def load_month_def Let_def persist_entries_def persist_budgets_def)

lemma setMonthValue_same: "setMonthValue today (monthValue s) s = s"
  by (simp add: setMonthValue_def)

text \<open>
  Claim C5 does not hold in \<^verbatim>\<open>spend-tracker\<close>: with entry \<open>e1\<close> under edit, selecting
  another month leaves \<open>editingId\<close> null and the amount field blank.
\<close>

theorem C5_month_switch_counterexample:
  "editingId_st (form_ex_st ''30'' ''lunch'' (Some ''e1'')) = Some ''e1''
   \<and> editingId_st (setMonthValue ''2024-03-05'' ''2024-02'' (form_ex_st ''30'' ''lunch'' (Some ''e1''))) = None
   \<and> formAmount (setMonthValue ''2024-03-05'' ''2024-02'' (form_ex_st ''30'' ''lunch'' (Some ''e1''))) = []"
  by (simp add: form_ex_st_def setMonthValue_def load_month_def Let_def persist_entries_def persist_budgets_def)

text \<open>
  Claim C5, amended.  In \<^verbatim>\<open>src/src/App.tsx\<close> selecting a month never changes \<open>editingId\<close> or
  \<open>editDraft\<close>.  In \<^verbatim>\<open>spend-tracker\<close> selecting a different month resets the edit state:
  \<open>editingId\<close> is null, amount and description are blank and the date is today's, only
  the form's category is kept; selecting the month already selected changes nothing.
\<close>

theorem C5_month_switch_editing:
  "editingId (setMonth v a) = editingId a \<and> editDraft (setMonth v a) = editDraft a
   \<and> (v \<noteq> monthValue c \<longrightarrow>
        editingId_st (setMonthValue today v c) = None
        \<and> formAmount (setMonthValue today v c) = []
        \<and> formWhat (setMonthValue today v c) = []
        \<and> formDate (setMonthValue today v c) = today
        \<and> formCategory (setMonthValue today v c) = formCategory c)
   \<and> (v = monthValue c \<longrightarrow> setMonthValue today v c = c)"
  using setMonth_keeps_editing [of v a] setMonthValue_resets_editing [of v c today]
    setMonthValue_same [of today c]
  by blast

theorem C5_month_switch_editing_witness:
  "editingId (setMonth ''2024-02'' editing_ex) = Some ''e1''
   \<and> editDraft (setMonth ''2024-02'' editing_ex) = editDraft editing_ex
   \<and> month (setMonth ''2024-02'' editing_ex) = ''2024-02''
   \<and> editingId_st (setMonthValue ''2024-03-05'' ''2024-02'' (form_ex_st ''30'' ''lunch'' (Some ''e1''))) = None
   \<and> formDate (setMonthValue ''2024-03-05'' ''2024-02'' (form_ex_st ''30'' ''lunch'' (Some ''e1''))) = ''2024-03-05''
   \<and> setMonthValue ''2024-03-05'' ''2024-01'' (form_ex_st ''30'' ''lunch'' (Some ''e1''))
       = form_ex_st ''30'' ''lunch'' (Some ''e1'')"
proof -
  have "editingId (setMonth ''2024-02'' editing_ex) = Some ''e1''
      \<and> editDraft (setMonth ''2024-02'' editing_ex) = editDraft editing_ex"
    using C5_month_switch_editing [where v = "''2024-02''" and a = editing_ex, THEN conjunct1]
      C5_month_switch_editing [where v = "''2024-02''" and a = editing_ex, THEN conjunct2, THEN conjunct1]
    by (simp add: editing_ex_def startEdit_def lunch_def)
  moreover have "month (setMonth ''2024-02'' editing_ex) = ''2024-02''"
    by (simp add: setMonth_def editing_ex_def startEdit_def two_months_def Let_def)
  moreover have "editingId_st (setMonthValue ''2024-03-05'' ''2024-02'' (form_ex_st ''30'' ''lunch'' (Some ''e1''))) = None
      \<and> formDate (setMonthValue ''2024-03-05'' ''2024-02'' (form_ex_st ''30'' ''lunch'' (Some ''e1''))) = ''2024-03-05''"
    using C5_month_switch_editing [where v = "''2024-02''" and today = "''2024-03-05''"
        and c = "form_ex_st ''30'' ''lunch'' (Some ''e1'')", THEN conjunct2, THEN conjunct2, THEN conjunct1]
    by (simp add: form_ex_st_def)
  moreover have "setMonthValue ''2024-03-05'' ''2024-01'' (form_ex_st ''30'' ''lunch'' (Some ''e1''))
       = form_ex_st ''30'' ''lunch'' (Some ''e1'')"
    using C5_month_switch_editing [where v = "''2024-01''" and today = "''2024-03-05''"
        and c = "form_ex_st ''30'' ''lunch'' (Some ''e1'')", THEN conjunct2, THEN conjunct2, THEN conjunct2]
    by (simp add: form_ex_st_def)
  ultimately show ?thesis by blast
qed

section \<open>Category totals and the month total\<close>

















section \<open>The biggest category\<close>






















section \<open>The order of the displayed entries\<close>

lemma mset_js_insert: "mset (js_insert cmp x xs) = add_mset x (mset xs)"
  by (induction xs) auto

lemma mset_js_sort: "mset (js_sort cmp xs) = mset xs"
  by (induction xs) (auto simp: mset_js_insert)

lemma sorted_js_insert:
  assumes total: "\<And>x y. cmp x y \<le> 0 \<or> cmp y x \<le> 0"
    and trans: "\<And>x y z. cmp x y \<le> 0 \<Longrightarrow> cmp y z \<le> 0 \<Longrightarrow> cmp x z \<le> 0"
  shows "sorted_wrt (\<lambda>a b. cmp a b \<le> 0) xs \<Longrightarrow> sorted_wrt (\<lambda>a b. cmp a b \<le> 0) (js_insert cmp x xs)"
proof (induction xs)
  case Nil
  then show ?case by simp
next
  case (Cons y ys)
  show ?case
  proof (cases "cmp x y \<le> 0")
    case True
    with Cons.prems show ?thesis by (auto intro: trans)
  next
    case False
    with total [of x y] have "cmp y x \<le> 0" by simp
    with False Cons show ?thesis by (auto simp: set_js_insert)
  qed
qed

lemma sorted_js_sort:
  assumes "\<And>x y. cmp x y \<le> 0 \<or> cmp y x \<le> 0"
    and "\<And>x y z. cmp x y \<le> 0 \<Longrightarrow> cmp y z \<le> 0 \<Longrightarrow> cmp x z \<le> 0"
  shows "sorted_wrt (\<lambda>a b. cmp a b \<le> 0) (js_sort cmp xs)"
proof (induction xs)
  case Nil
  then show ?case by simp
next
  case (Cons x xs)
  show ?case
    using sorted_js_insert [of cmp, OF assms(1) assms(2) Cons.IH] by simp
qed

text \<open>Stability: what the sort does to the elements of one key.\<close>

lemma filter_js_insert:
  fixes key :: "'a \<Rightarrow> string"
  assumes "\<And>a b. cmp a b \<le> 0 \<longleftrightarrow> key b \<le> key a"
  shows "filter (\<lambda>e. key e = d) (js_insert cmp x xs)
         = (if key x = d then x # filter (\<lambda>e. key e = d) xs else filter (\<lambda>e. key e = d) xs)"
  by (induction xs) (auto simp: assms)

lemma filter_js_sort:
  fixes key :: "'a \<Rightarrow> string"
  assumes "\<And>a b. cmp a b \<le> 0 \<longleftrightarrow> key b \<le> key a"
  shows "filter (\<lambda>e. key e = d) (js_sort cmp xs) = filter (\<lambda>e. key e = d) xs"
  by (induction xs) (simp_all add: filter_js_insert [of cmp key, OF assms])

lemma newest_first_le: 
  "newest_first a b \<le> 0 \<longleftrightarrow> x_date b < x_date a \<or> (x_date a = x_date b \<and> x_id b \<le> x_id a)"
  by (auto simp: newest_first_def)

lemma date_desc_le: "date_desc a b \<le> 0 \<longleftrightarrow> e_date b \<le> e_date a"
  by (auto simp: date_desc_def localeCompare_def)

lemma newest_first_st_le: "newest_first_st a b \<le> 0 \<longleftrightarrow> st_date b \<le> st_date a"
  by (auto simp: newest_first_st_def)

lemma sortedExpenses_sorted:
  "sorted_wrt (\<lambda>a b. x_date b < x_date a \<or> (x_date a = x_date b \<and> x_id b \<le> x_id a))
     (sortedExpenses s)"
proof -
  have "sorted_wrt (\<lambda>a b. newest_first a b \<le> 0) (js_sort newest_first (expensesThisMonth s))"
    by (rule sorted_js_sort) (auto simp: newest_first_le)
  then show ?thesis by (simp add: sortedExpenses_def newest_first_le)
qed

lemma monthEntries_sorted: "sorted_wrt (\<lambda>a b. e_date b \<le> e_date a) (monthEntries s)"
proof -
  have "sorted_wrt (\<lambda>a b. date_desc a b \<le> 0)
      (js_sort date_desc (filter (\<lambda>e. e_month e = month s) (allEntries s)))"
    by (rule sorted_js_sort) (auto simp: date_desc_le)
  then show ?thesis by (simp add: monthEntries_def date_desc_le)
qed

lemma entries_table_sorted: "sorted_wrt (\<lambda>a b. st_date b \<le> st_date a) (entries_table s)"
proof -
  have "sorted_wrt (\<lambda>a b. newest_first_st a b \<le> 0) (js_sort newest_first_st (entries s))"
    by (rule sorted_js_sort) (auto simp: newest_first_st_le)
  then show ?thesis by (simp add: entries_table_def newest_first_st_le)
qed

lemma monthEntries_stable:
  "filter (\<lambda>e. e_date e = d) (monthEntries s)
   = filter (\<lambda>e. e_date e = d) (filter (\<lambda>e. e_month e = month s) (allEntries s))"
  unfolding monthEntries_def by (rule filter_js_sort) (rule date_desc_le)

text \<open>
  Claim C9 does not hold for entries of one date in \<^verbatim>\<open>src/src/App.tsx\<close>: the month view
  lists the snack (id \<open>e0\<close>) before the lunch (id \<open>e1\<close>) of the same day, the order in
  which the list stores them, and not by descending id.
\<close>

theorem C9_same_day_counterexample:
  "monthEntries same_day = [fuel, snack, lunch]
   \<and> e_date snack = e_date lunch \<and> e_id snack < e_id lunch"
  by (simp add: monthEntries_def same_day_def snack_def lunch_def fuel_def date_desc_def
      localeCompare_def)

text \<open>
  Claim C9, amended.  The displayed list of each variant is a rearrangement of the
  month's entries sorted by descending date.  In \<^verbatim>\<open>part_000\<close> entries of one date follow
  by descending id.  In \<^verbatim>\<open>src/src/App.tsx\<close> entries of one date keep the order in which
  the entry list stores them (the sort is stable and compares dates only).  For
  \<^verbatim>\<open>spend-tracker\<close> only the order by date is stated.
\<close>

theorem C9_display_order:
  "sorted_wrt (\<lambda>x y. x_date y < x_date x \<or> (x_date x = x_date y \<and> x_id y \<le> x_id x))
     (sortedExpenses b)
   \<and> mset (sortedExpenses b) = mset (expensesThisMonth b)
   \<and> sorted_wrt (\<lambda>x y. e_date y \<le> e_date x) (monthEntries a)
   \<and> mset (monthEntries a) = mset (filter (\<lambda>e. e_month e = month a) (allEntries a))
   \<and> (\<forall>d. filter (\<lambda>e. e_date e = d) (monthEntries a)
            = filter (\<lambda>e. e_date e = d) (filter (\<lambda>e. e_month e = month a) (allEntries a)))
   \<and> sorted_wrt (\<lambda>x y. st_date y \<le> st_date x) (entries_table c)
   \<and> mset (entries_table c) = mset (entries c)"
  using sortedExpenses_sorted [of b] monthEntries_sorted [of a] entries_table_sorted [of c]
    monthEntries_stable [of _ a]
  by (simp add: sortedExpenses_def monthEntries_def entries_table_def mset_js_sort)

theorem C9_display_order_witness:
  "sorted_wrt (\<lambda>x y. x_date y < x_date x \<or> (x_date x = x_date y \<and> x_id y \<le> x_id x))
     (sortedExpenses same_day_p0)
   \<and> sortedExpenses same_day_p0 = [fuel_p0, lunch_p0, snack_p0]
   \<and> filter (\<lambda>e. e_date e = ''2024-01-10'') (monthEntries same_day) = [snack, lunch]"
proof -
  note inst = C9_display_order [where a = same_day and b = same_day_p0]
  have "sortedExpenses same_day_p0 = [fuel_p0, lunch_p0, snack_p0]"
    by (simp add: sortedExpenses_def expensesThisMonth_def same_day_p0_def snack_p0_def
        lunch_p0_def fuel_p0_def newest_first_def)
  moreover have "filter (\<lambda>e. e_date e = ''2024-01-10'') (monthEntries same_day) = [snack, lunch]"
    using inst [THEN conjunct2, THEN conjunct2, THEN conjunct2, THEN conjunct2, THEN conjunct1,
        rule_format, of "''2024-01-10''"]
    by (simp add: same_day_def snack_def lunch_def fuel_def)
  ultimately show ?thesis using inst [THEN conjunct1] by simp
qed

section \<open>Editing the date of an entry\<close>








section \<open>Removing a category\<close>










end
